theory Spec2Isabelle
  imports Complex_Main
begin

section \<open>Python values\<close>

text \<open>
  The plugin \<^verbatim>\<open>plugins.v2/sixtyseconds/__init__.py\<close> caches whatever the
  JSON body of the API holds under \<^verbatim>\<open>data\<close>, and builds its widget trees and its
  configuration from plain Python dictionaries, lists and scalars. The embedding
  therefore works on one type of Python values. A Python \<^verbatim>\<open>str\<close> is a sequence
  of Unicode code points (the source's literals are mostly Chinese), so a string is
  a list of code points and \<open>ascii\<close> embeds the ASCII literals.
\<close>

type_synonym pystr = "nat list"

definition ascii :: "string \<Rightarrow> pystr" where
  "ascii s = map of_char s"

datatype pyval =
    PNone
  | PBool bool
  | PInt int
  | PFloat rat
  | PStr pystr
  | PList "pyval list"
  | PDict "(pystr \<times> pyval) list"

text \<open>
  \<open>PFloat\<close> carries the exact value of a finite float (JSON \<^verbatim>\<open>200.0\<close>);
  a dictionary lists its items in insertion order.
\<close>

definition lit :: "string \<Rightarrow> pyval" where
  "lit s = PStr (ascii s)"

text \<open>
  Exceptions. \<open>AttributeError\<close>, \<open>TypeError\<close> and \<open>KeyError\<close> are raised by the
  interpreter (\<^verbatim>\<open>.get\<close> on a value that is no dictionary, iterating or slicing a
  value that has no such protocol, a dictionary asked for a key it does not hold);
  \<open>Raised m\<close> is an exception of the host or of a library (HTTP client, JSON
  decoder, crontab parser) with message \<open>m\<close>. All of them derive from
  \<^verbatim>\<open>Exception\<close>.
\<close>

datatype exn = AttributeError | TypeError | KeyError | Raised pystr

definition bind_exn :: "exn + 'a \<Rightarrow> ('a \<Rightarrow> exn + 'b) \<Rightarrow> exn + 'b" where
  "bind_exn m f = (case m of Inl e \<Rightarrow> Inl e | Inr x \<Rightarrow> f x)"

text \<open>
  What the interpreter and the host's libraries decide: \<open>py_str\<close> is the built-in
  \<^verbatim>\<open>str\<close> on values that are not strings, \<open>crontab_error\<close> is the exception
  \<^verbatim>\<open>CronTrigger.from_crontab\<close> raises on an expression it rejects, and
  \<open>slices_hashable\<close> says whether a slice object can be hashed (it can from
  Python 3.12 on).
\<close>

record host =
  py_str :: "pyval \<Rightarrow> pystr"
  crontab_error :: "pyval \<Rightarrow> exn option"
  slices_hashable :: bool

text \<open>Truth value testing (\<^verbatim>\<open>if x\<close>, \<^verbatim>\<open>not x\<close>).\<close>

fun truthy :: "pyval \<Rightarrow> bool" where
  "truthy PNone = False"
| "truthy (PBool b) = b"
| "truthy (PInt i) = (i \<noteq> 0)"
| "truthy (PFloat r) = (r \<noteq> 0)"
| "truthy (PStr s) = (s \<noteq> [])"
| "truthy (PList xs) = (xs \<noteq> [])"
| "truthy (PDict kvs) = (kvs \<noteq> [])"

text \<open>\<^verbatim>\<open>obj.get(key, default)\<close>: only a dictionary has the method.\<close>

fun py_get :: "pyval \<Rightarrow> pystr \<Rightarrow> pyval \<Rightarrow> exn + pyval" where
  "py_get (PDict kvs) k dflt = Inr (case map_of kvs k of None \<Rightarrow> dflt | Some v \<Rightarrow> v)"
| "py_get v k dflt = Inl AttributeError"

text \<open>
  Iteration (\<^verbatim>\<open>enumerate(x)\<close>, \<^verbatim>\<open>for ... in x\<close>): a list yields its items, a
  string its characters, a dictionary its keys; nothing else is iterable.
\<close>

fun py_iter :: "pyval \<Rightarrow> exn + pyval list" where
  "py_iter (PList xs) = Inr xs"
| "py_iter (PStr s) = Inr (map (\<lambda>c. PStr [c]) s)"
| "py_iter (PDict kvs) = Inr (map (\<lambda>kv. PStr (fst kv)) kvs)"
| "py_iter v = Inl TypeError"

text \<open>
  The slice \<^verbatim>\<open>x[:n]\<close>: a list or string is cut to its first \<open>n\<close> items. A
  dictionary takes the slice as a key: where slices cannot be hashed that is a
  \<^verbatim>\<open>TypeError\<close>, where they can it is a key the dictionary does not hold (the
  keys of a decoded JSON object are strings). A scalar is not subscriptable.
\<close>

fun py_slice_to :: "host \<Rightarrow> nat \<Rightarrow> pyval \<Rightarrow> exn + pyval" where
  "py_slice_to h n (PList xs) = Inr (PList (take n xs))"
| "py_slice_to h n (PStr s) = Inr (PStr (take n s))"
| "py_slice_to h n (PDict kvs) = Inl (if slices_hashable h then KeyError else TypeError)"
| "py_slice_to h n v = Inl TypeError"

text \<open>\<^verbatim>\<open>x == n\<close> for an integer literal \<open>n\<close>: numbers compare by value.\<close>

fun py_eq_int :: "pyval \<Rightarrow> int \<Rightarrow> bool" where
  "py_eq_int (PInt i) n = (i = n)"
| "py_eq_int (PFloat r) n = (r = of_int n)"
| "py_eq_int (PBool b) n = ((if b then 1 else 0) = n)"
| "py_eq_int v n = False"

text \<open>Decimal digits of a natural number, as \<^verbatim>\<open>str\<close> prints \<^verbatim>\<open>idx+1\<close>.\<close>

fun str_nat :: "nat \<Rightarrow> pystr" where
  "str_nat n = (if n < 10 then [48 + n] else str_nat (n div 10) @ [48 + n mod 10])"

declare str_nat.simps [simp del]

text \<open>A replacement field \<^verbatim>\<open>{x}\<close> of an f-string.\<close>

fun format_py :: "host \<Rightarrow> pyval \<Rightarrow> pystr" where
  "format_py h (PStr s) = s"
| "format_py h v = py_str h v"

section \<open>The plugin and what it leaves with the host\<close>

datatype detail = OfExn exn | OfText pystr

datatype log_entry = Info pystr | Error pystr detail

datatype notification_type = SiteMessage | Plugin | Manual | Other

record notification =
  mtype :: notification_type
  title :: pystr
  message :: pystr

datatype trigger = CronTrigger pyval

datatype callable = FetchData

record job =
  job_func :: callable
  job_trigger :: trigger
  job_name :: pystr

record scheduler_obj =
  jobs :: "job list"
  running :: bool

record service =
  service_id :: pystr
  service_name :: pystr
  service_trigger :: trigger
  service_func :: callable
  service_kwargs :: pyval

text \<open>
  The attributes of \<^verbatim>\<open>SixtySecondsWorld\<close> (without the leading underscore),
  followed by what its calls leave with the host: the log, the messages handed to
  \<^verbatim>\<open>post_message\<close>, the texts put on \<^verbatim>\<open>systemmessage\<close> and the
  configuration saved by \<^verbatim>\<open>update_config\<close>.
\<close>

record plugin =
  enabled :: pyval
  cron :: pyval
  notify :: pyval
  onlyonce :: pyval
  cover :: pyval
  last_update :: "nat option"
  scheduler :: "scheduler_obj option"
  data :: pyval
  logged :: "log_entry list"
  posted :: "notification list"
  systemmessage :: "(pystr \<times> exn) list"
  saved_config :: "pyval option"

text \<open>The class attributes: the state of an instance nothing has touched yet.\<close>

definition initial :: plugin where
  "initial = \<lparr>enabled = PBool False, cron = lit ''0 8 * * *'', notify = PBool False,
     onlyonce = PBool False, cover = PBool True, last_update = None, scheduler = None,
     data = PDict [], logged = [], posted = [], systemmessage = [], saved_config = None\<rparr>"

subsection \<open>String constants of the source\<close>

definition plugin_title :: pystr where
  "plugin_title = [54, 48, 31186, 35835, 25026, 19990, 30028]"

definition middle_dot :: pystr where
  "middle_dot = [32, 183, 32]"

definition no_data_text :: pystr where
  "no_data_text = [26242, 26080, 25968, 25454]"

definition view_details :: pystr where
  "view_details = [26597, 30475, 35814, 24773]"

definition heading :: "host \<Rightarrow> pyval \<Rightarrow> pystr" where
  "heading h date = plugin_title @ middle_dot @ format_py h date"

text \<open>
  \<^verbatim>\<open>[f(idx, item) for idx, item in enumerate(items)]\<close> with the text
  \<^verbatim>\<open>f"{idx+1}. {item}"\<close>.
\<close>

definition numbered :: "host \<Rightarrow> nat \<Rightarrow> pyval \<Rightarrow> pystr" where
  "numbered h idx item = str_nat (idx + 1) @ ascii ''. '' @ format_py h item"

subsection \<open>get_page\<close>

definition page_placeholder :: pyval where
  "page_placeholder = PDict
     [(ascii ''component'', lit ''div''),
      (ascii ''text'', PStr no_data_text),
      (ascii ''props'', PDict
         [(ascii ''class'', lit ''text-center''),
          (ascii ''style'', lit ''margin-top: 50px'')])]"

definition page_news_item :: "host \<Rightarrow> nat \<times> pyval \<Rightarrow> pyval" where
  "page_news_item h p = PDict
     [(ascii ''component'', lit ''div''),
      (ascii ''props'', PDict [(ascii ''class'', lit ''mb-2'')]),
      (ascii ''text'', PStr (numbered h (fst p) (snd p)))]"

definition page_img :: "pyval \<Rightarrow> pyval" where
  "page_img src = PDict
     [(ascii ''component'', lit ''VImg''),
      (ascii ''props'', PDict
         [(ascii ''src'', src),
          (ascii ''max-width'', lit ''100%''),
          (ascii ''class'', lit ''mb-4'')])]"

definition get_page :: "host \<Rightarrow> plugin \<Rightarrow> exn + pyval" where
  "get_page h s =
    (if \<not> truthy (data s) then Inr (PList [page_placeholder])
     else
       bind_exn (py_get (data s) (ascii ''date'') (lit '''')) (\<lambda>date.
       bind_exn (py_get (data s) (ascii ''tip'') (lit '''')) (\<lambda>tip.
       bind_exn (if truthy (cover s)
                 then bind_exn (py_get (data s) (ascii ''cover'') (lit ''''))
                        (\<lambda>src. Inr (page_img src))
                 else Inr PNone) (\<lambda>img.
       bind_exn (py_get (data s) (ascii ''news'') (PList [])) (\<lambda>news.
       bind_exn (py_iter news) (\<lambda>items.
       bind_exn (py_get (data s) (ascii ''link'') (lit '''')) (\<lambda>link.
       Inr (PList
         [PDict
           [(ascii ''component'', lit ''VCard''),
            (ascii ''content'', PList
              [PDict
                [(ascii ''component'', lit ''div''),
                 (ascii ''props'', PDict [(ascii ''class'', lit ''pa-4'')]),
                 (ascii ''content'', PList
                   [PDict
                     [(ascii ''component'', lit ''div''),
                      (ascii ''props'', PDict [(ascii ''class'', lit ''text-h5 mb-2'')]),
                      (ascii ''text'', PStr (heading h date))],
                    PDict
                     [(ascii ''component'', lit ''div''),
                      (ascii ''props'', PDict [(ascii ''class'', lit ''text-caption mb-3'')]),
                      (ascii ''text'', tip)],
                    img,
                    PDict
                     [(ascii ''component'', lit ''div''),
                      (ascii ''content'',
                         PList (map (page_news_item h) (List.enumerate 0 items)))],
                    PDict
                     [(ascii ''component'', lit ''div''),
                      (ascii ''props'', PDict [(ascii ''class'', lit ''mt-4'')]),
                      (ascii ''content'', PList
                        [PDict
                          [(ascii ''component'', lit ''a''),
                           (ascii ''props'', PDict
                              [(ascii ''href'', link),
                               (ascii ''target'', lit ''_blank''),
                               (ascii ''class'', lit ''text-decoration-none'')]),
                           (ascii ''text'', PStr view_details)]])]])]])]]))))))))"

subsection \<open>get_dashboard\<close>

text \<open>
  The text of \<^verbatim>\<open>get_dashboard\<close> (source lines 313 to 411) is not well-formed
  Python: the return annotation on line 313 opens five brackets and closes four,
  and the call \<^verbatim>\<open>enumerate(self._data.get('news', [])[:3]\<close> on line 386 never
  closes its parenthesis. The function as given has no behaviour to embed, so the
  theory defines none for it; every other method is well-formed on its own and is
  embedded as written.
\<close>

subsection \<open>__send_notify\<close>

definition title_open :: pystr where
  "title_open = [12304]"

definition title_close :: pystr where
  "title_close = [12305]"

definition details_prefix :: pystr where
  "details_prefix = [10, 26597, 30475, 35814, 24773, 58, 32]"

text \<open>
  The message the loop assembles: \<^verbatim>\<open>message += f"{idx+1}. {news}\n"\<close> over
  \<^verbatim>\<open>enumerate(self._data.get("news", [])[:5])\<close>, between the two header lines
  and the link line.
\<close>

definition notify_message :: "host \<Rightarrow> pyval \<Rightarrow> exn + pystr" where
  "notify_message h d =
     bind_exn (py_get d (ascii ''date'') (lit '''')) (\<lambda>date.
     bind_exn (py_get d (ascii ''tip'') (lit '''')) (\<lambda>tip.
     bind_exn (py_get d (ascii ''news'') (PList [])) (\<lambda>news.
     bind_exn (py_slice_to h 5 news) (\<lambda>cut.
     bind_exn (py_iter cut) (\<lambda>items.
     bind_exn (py_get d (ascii ''link'') (lit '''')) (\<lambda>link.
     Inr (foldl (\<lambda>m p. m @ numbered h (fst p) (snd p) @ [10])
            (title_open @ heading h date @ title_close @ [10] @ format_py h tip @ [10, 10])
            (List.enumerate 0 items)
          @ details_prefix @ format_py h link)))))))"

definition send_notify :: "host \<Rightarrow> plugin \<Rightarrow> (exn + unit) \<times> plugin" where
  "send_notify h s =
    (if \<not> truthy (data s) then (Inr (), s)
     else case notify_message h (data s) of
       Inl e \<Rightarrow> (Inl e, s)
     | Inr m \<Rightarrow>
         (Inr (), s\<lparr>posted := posted s @
            [\<lparr>mtype = SiteMessage, title = plugin_title, message = m\<rparr>]\<rparr>))"

subsection \<open>__fetch_data\<close>

text \<open>
  What \<^verbatim>\<open>RequestUtils(timeout=10).get_res(SIXTY_SECONDS_API)\<close> can do: raise,
  return \<^verbatim>\<open>None\<close>, or return a response. A response is read through its status
  code, its \<^verbatim>\<open>json()\<close> (which raises on a body that is no JSON) and its text.
\<close>

record response =
  status_code :: int
  json :: "exn + pyval"
  res_text :: pystr

datatype http_result = Failed exn | NoResponse | Response response

text \<open>
  The truth value of a response object is its \<^verbatim>\<open>ok\<close> property: false for the
  client and server error codes.
\<close>

definition response_truthy :: "response \<Rightarrow> bool" where
  "response_truthy r = (\<not> (400 \<le> status_code r \<and> status_code r < 600))"

definition fetch_start_msg :: pystr where
  "fetch_start_msg = [24320, 22987, 33719, 21462, 54, 48, 31186, 35835, 25026, 19990,
     30028, 25968, 25454, 46, 46, 46]"

definition fetch_ok_msg :: pystr where
  "fetch_ok_msg = [54, 48, 31186, 35835, 25026, 19990, 30028, 25968, 25454, 33719,
     21462, 25104, 21151]"

definition fetch_failed_prefix :: pystr where
  "fetch_failed_prefix = [33719, 21462, 54, 48, 31186, 35835, 25026, 19990, 30028,
     25968, 25454, 22833, 36133, 58, 32]"

definition fetch_exn_prefix :: pystr where
  "fetch_exn_prefix = [33719, 21462, 54, 48, 31186, 35835, 25026, 19990, 30028,
     25968, 25454, 24322, 24120, 58, 32]"

definition no_response_text :: pystr where
  "no_response_text = [26080, 21709, 24212]"

definition put_log :: "log_entry \<Rightarrow> plugin \<Rightarrow> plugin" where
  "put_log e s = s\<lparr>logged := logged s @ [e]\<rparr>"

text \<open>
  The line after the outer \<^verbatim>\<open>if\<close>:
  \<^verbatim>\<open>logger.error(f"...: {res.text if res else '...'}")\<close>, after which control
  leaves the \<^verbatim>\<open>try\<close> and reaches \<^verbatim>\<open>return False\<close>.
\<close>

definition fetch_rejected :: "http_result \<Rightarrow> plugin \<Rightarrow> (exn + bool) \<times> plugin" where
  "fetch_rejected res s =
     (Inr False,
      put_log (Error fetch_failed_prefix
        (OfText (case res of
                   Response r \<Rightarrow> if response_truthy r then res_text r else no_response_text
                 | _ \<Rightarrow> no_response_text))) s)"

text \<open>
  The body of the \<^verbatim>\<open>try\<close>: \<open>Inl e\<close> when \<open>e\<close> is raised inside it, with the
  state as the statements before the raise left it.
\<close>

definition fetch_try :: "host \<Rightarrow> http_result \<Rightarrow> nat \<Rightarrow> plugin \<Rightarrow> (exn + bool) \<times> plugin" where
  "fetch_try h res now s =
    (let s1 = put_log (Info fetch_start_msg) s in
     case res of
       Failed e \<Rightarrow> (Inl e, s1)
     | NoResponse \<Rightarrow> fetch_rejected res s1
     | Response r \<Rightarrow>
         if response_truthy r \<and> status_code r = 200 then
           (case json r of
              Inl e \<Rightarrow> (Inl e, s1)
            | Inr body \<Rightarrow>
                (case py_get body (ascii ''code'') PNone of
                   Inl e \<Rightarrow> (Inl e, s1)
                 | Inr code \<Rightarrow>
                     if py_eq_int code 200 then
                       (case py_get body (ascii ''data'') (PDict []) of
                          Inl e \<Rightarrow> (Inl e, s1)
                        | Inr d \<Rightarrow>
                            (let s2 = s1\<lparr>data := d, last_update := Some now\<rparr> in
                             if truthy (notify s2) then
                               (case send_notify h s2 of
                                  (Inl e, s3) \<Rightarrow> (Inl e, s3)
                                | (Inr u, s3) \<Rightarrow> (Inr True, put_log (Info fetch_ok_msg) s3))
                             else (Inr True, put_log (Info fetch_ok_msg) s2)))
                     else fetch_rejected res s1))
         else fetch_rejected res s1)"

text \<open>
  The whole method: \<^verbatim>\<open>except Exception as e\<close> logs and falls through to
  \<^verbatim>\<open>return False\<close>. The result is a sum so that an exception leaving the method
  would be a value \<open>Inl e\<close> of it.
\<close>

definition fetch_data :: "host \<Rightarrow> http_result \<Rightarrow> nat \<Rightarrow> plugin \<Rightarrow> (exn + bool) \<times> plugin" where
  "fetch_data h res now s =
    (case fetch_try h res now s of
       (Inl e, s') \<Rightarrow> (Inr False, put_log (Error fetch_exn_prefix (OfExn e)) s')
     | (Inr b, s') \<Rightarrow> (Inr b, s'))"

subsection \<open>stop_service, init_plugin, get_state, get_service\<close>

text \<open>
  \<^verbatim>\<open>stop_service\<close> empties and shuts down the scheduler it finds, then forgets
  it; the scheduler's own calls are taken not to raise.
\<close>

definition stop_service :: "plugin \<Rightarrow> plugin" where
  "stop_service s = (case scheduler s of None \<Rightarrow> s | Some sch \<Rightarrow> s\<lparr>scheduler := None\<rparr>)"

definition default_cron :: pyval where
  "default_cron = lit ''0 8 * * *''"

definition cron_error_prefix :: pystr where
  "cron_error_prefix = [23450, 26102, 20219, 21153, 37197, 32622, 38169, 35823, 58, 32]"

text \<open>\<^verbatim>\<open>if config:\<close> and the five \<^verbatim>\<open>config.get\<close> with their defaults.\<close>

definition load_config :: "pyval \<Rightarrow> plugin \<Rightarrow> exn + plugin" where
  "load_config config s =
    (if truthy config then
       bind_exn (py_get config (ascii ''enabled'') (PBool False)) (\<lambda>e.
       bind_exn (py_get config (ascii ''cron'') default_cron) (\<lambda>c.
       bind_exn (py_get config (ascii ''notify'') (PBool False)) (\<lambda>n.
       bind_exn (py_get config (ascii ''onlyonce'') (PBool False)) (\<lambda>oo.
       bind_exn (py_get config (ascii ''cover'') (PBool True)) (\<lambda>cv.
       Inr (s\<lparr>enabled := e, cron := c, notify := n, onlyonce := oo, cover := cv\<rparr>))))))
     else Inr s)"

text \<open>
  The one-shot run: the flag is cleared, the configuration is saved with
  \<^verbatim>\<open>onlyonce\<close> false, and the fetch runs once; its result is dropped.
\<close>

definition run_once :: "host \<Rightarrow> http_result \<Rightarrow> nat \<Rightarrow> plugin \<Rightarrow> plugin" where
  "run_once h res now s =
    (if truthy (onlyonce s) then
       snd (fetch_data h res now
         (s\<lparr>onlyonce := PBool False,
            saved_config := Some (PDict
              [(ascii ''enabled'', enabled s),
               (ascii ''cron'', cron s),
               (ascii ''notify'', notify s),
               (ascii ''onlyonce'', PBool False),
               (ascii ''cover'', cover s)])\<rparr>))
     else s)"

text \<open>
  Registration of the scheduled fetch in \<^verbatim>\<open>init_plugin\<close>: the
  \<^verbatim>\<open>try\<close> around \<^verbatim>\<open>add_job(..., trigger=CronTrigger.from_crontab(self._cron))\<close>
  logs the error and tells the user; the scheduler starts only when it has a job.
\<close>

definition fetch_job :: "pyval \<Rightarrow> job" where
  "fetch_job c = \<lparr>job_func = FetchData, job_trigger = CronTrigger c, job_name = plugin_title\<rparr>"

definition start_scheduler :: "host \<Rightarrow> plugin \<Rightarrow> plugin" where
  "start_scheduler h s =
    (if truthy (enabled s) then
       (let sch0 = \<lparr>jobs = [], running = False\<rparr>;
            s1 = s\<lparr>scheduler := Some sch0\<rparr>;
            s2 = (if truthy (cron s1) then
                    (case crontab_error h (cron s1) of
                       None \<Rightarrow> s1\<lparr>scheduler := Some (sch0\<lparr>jobs := [fetch_job (cron s1)]\<rparr>)\<rparr>
                     | Some e \<Rightarrow>
                         (put_log (Error cron_error_prefix (OfExn e)) s1)
                           \<lparr>systemmessage := systemmessage s1 @ [(cron_error_prefix, e)]\<rparr>)
                  else s1)
        in case scheduler s2 of
             None \<Rightarrow> s2
           | Some sch \<Rightarrow>
               if jobs sch \<noteq> [] then s2\<lparr>scheduler := Some (sch\<lparr>running := True\<rparr>)\<rparr> else s2)
     else s)"

definition init_plugin ::
  "host \<Rightarrow> pyval \<Rightarrow> http_result \<Rightarrow> nat \<Rightarrow> plugin \<Rightarrow> (exn + unit) \<times> plugin" where
  "init_plugin h config res now s =
    (let s0 = stop_service s in
     case load_config config s0 of
       Inl e \<Rightarrow> (Inl e, s0)
     | Inr s1 \<Rightarrow> (Inr (), start_scheduler h (run_once h res now s1)))"

definition get_state :: "plugin \<Rightarrow> pyval" where
  "get_state s = enabled s"

definition service_title :: pystr where
  "service_title = [54, 48, 31186, 35835, 25026, 19990, 30028, 23450, 26102, 26381, 21153]"

text \<open>
  \<^verbatim>\<open>get_service\<close> evaluates \<^verbatim>\<open>CronTrigger.from_crontab(self._cron)\<close> inside
  the list it returns, outside any \<^verbatim>\<open>try\<close>.
\<close>

definition get_service :: "host \<Rightarrow> plugin \<Rightarrow> exn + service list" where
  "get_service h s =
    (if \<not> truthy (enabled s) then Inr []
     else case crontab_error h (cron s) of
       Some e \<Rightarrow> Inl e
     | None \<Rightarrow>
         Inr [\<lparr>service_id = ascii ''SixtySeconds'', service_name = service_title,
               service_trigger = CronTrigger (cron s), service_func = FetchData,
               service_kwargs = PDict []\<rparr>])"

subsection \<open>handle_action\<close>

datatype event = Event (event_data: pyval)

definition command_msg :: pystr where
  "command_msg = [25910, 21040, 21629, 20196, 65292, 33719, 21462, 54, 48, 31186,
     35835, 25026, 19990, 30028, 25968, 25454, 46, 46, 46]"

text \<open>
  The handler of \<^verbatim>\<open>EventType.PluginAction\<close>; \<open>None\<close> is the call without an
  event. The fetch it triggers reads \<open>res\<close> at time \<open>now\<close>.
\<close>

definition handle_action ::
  "host \<Rightarrow> event option \<Rightarrow> http_result \<Rightarrow> nat \<Rightarrow> plugin \<Rightarrow> (exn + unit) \<times> plugin" where
  "handle_action h ev res now s =
    (case ev of
       None \<Rightarrow> (Inr (), s)
     | Some e \<Rightarrow>
         if \<not> truthy (event_data e) then (Inr (), s)
         else case py_get (event_data e) (ascii ''action'') PNone of
           Inl x \<Rightarrow> (Inl x, s)
         | Inr a \<Rightarrow>
             if a \<noteq> lit ''sixty_seconds'' then (Inr (), s)
             else
               (let s1 = put_log (Info command_msg) s;
                    s2 = snd (fetch_data h res now s1)
                in if truthy (notify s2) then send_notify h s2 else (Inr (), s2)))"

section \<open>The Digest of the data model and the observations the claims make\<close>

text \<open>
  The record the specification calls Digest, and the Python dictionary a JSON body
  with exactly these fields decodes to.
\<close>

record digest =
  digest_date :: pystr
  digest_tip :: pystr
  digest_cover :: pystr
  digest_news :: "pystr list"
  digest_link :: pystr

definition digest_val :: "digest \<Rightarrow> pyval" where
  "digest_val g = PDict
     [(ascii ''date'', PStr (digest_date g)),
      (ascii ''tip'', PStr (digest_tip g)),
      (ascii ''cover'', PStr (digest_cover g)),
      (ascii ''news'', PList (map PStr (digest_news g))),
      (ascii ''link'', PStr (digest_link g))]"

definition envelope :: "pyval \<Rightarrow> pyval" where
  "envelope d = PDict [(ascii ''code'', PInt 200), (ascii ''data'', d)]"

text \<open>
  The failed fetches: an exception of the request, no response, a status other than
  200, a body that is no JSON, or an envelope whose \<^verbatim>\<open>code\<close> is not 200 (a body
  that is no object has no \<^verbatim>\<open>code\<close> at all).
\<close>

definition fetch_failed :: "http_result \<Rightarrow> bool" where
  "fetch_failed res =
    (case res of
       Failed e \<Rightarrow> True
     | NoResponse \<Rightarrow> True
     | Response r \<Rightarrow>
         status_code r \<noteq> 200 \<or>
         (case json r of
            Inl e \<Rightarrow> True
          | Inr body \<Rightarrow>
              (case py_get body (ascii ''code'') PNone of
                 Inl e \<Rightarrow> True
               | Inr code \<Rightarrow> \<not> py_eq_int code 200)))"

text \<open>
  Positions in a widget tree: a dictionary key or a list index at each step.
  \<open>get_at\<close> reads the subtree at a position, \<open>set_at\<close> replaces it and
  \<open>remove_at\<close> deletes it from the list that holds it.
\<close>

datatype step = Key pystr | Idx nat

fun get_at :: "step list \<Rightarrow> pyval \<Rightarrow> pyval option" where
  "get_at [] v = Some v"
| "get_at (Key k # p) v =
     (case v of
        PDict kvs \<Rightarrow> (case map_of kvs k of None \<Rightarrow> None | Some x \<Rightarrow> get_at p x)
      | _ \<Rightarrow> None)"
| "get_at (Idx i # p) v =
     (case v of
        PList xs \<Rightarrow> if i < length xs then get_at p (xs ! i) else None
      | _ \<Rightarrow> None)"

fun set_at :: "step list \<Rightarrow> pyval \<Rightarrow> pyval \<Rightarrow> pyval" where
  "set_at [] new v = new"
| "set_at (Key k # p) new v =
     (case v of
        PDict kvs \<Rightarrow>
          PDict (map (\<lambda>kv. if fst kv = k then (fst kv, set_at p new (snd kv)) else kv) kvs)
      | _ \<Rightarrow> v)"
| "set_at (Idx i # p) new v =
     (case v of
        PList xs \<Rightarrow> if i < length xs then PList (xs[i := set_at p new (xs ! i)]) else v
      | _ \<Rightarrow> v)"

fun remove_at :: "step list \<Rightarrow> pyval \<Rightarrow> pyval" where
  "remove_at [] v = v"
| "remove_at [Idx i] v =
     (case v of PList xs \<Rightarrow> PList (take i xs @ drop (Suc i) xs) | _ \<Rightarrow> v)"
| "remove_at (Key k # p) v =
     (case v of
        PDict kvs \<Rightarrow>
          PDict (map (\<lambda>kv. if fst kv = k then (fst kv, remove_at p (snd kv)) else kv) kvs)
      | _ \<Rightarrow> v)"
| "remove_at (Idx i # p) v =
     (case v of
        PList xs \<Rightarrow> if i < length xs then PList (xs[i := remove_at p (xs ! i)]) else v
      | _ \<Rightarrow> v)"

text \<open>The \<^verbatim>\<open>text\<close> of each child of a container, in order.\<close>

definition child_texts :: "pyval \<Rightarrow> pyval option list" where
  "child_texts v =
    (case get_at [Key (ascii ''content'')] v of
       Some (PList xs) \<Rightarrow> map (get_at [Key (ascii ''text'')]) xs
     | _ \<Rightarrow> [])"

text \<open>
  Where the page holds the cover image and the news container:
  \<^verbatim>\<open>page[0]['content'][0]['content'][2]\<close> and \<^verbatim>\<open>[3]\<close>.
\<close>

definition page_cover_pos :: "step list" where
  "page_cover_pos = [Idx 0, Key (ascii ''content''), Idx 0, Key (ascii ''content''), Idx 2]"

definition page_news_pos :: "step list" where
  "page_news_pos = [Idx 0, Key (ascii ''content''), Idx 0, Key (ascii ''content''), Idx 3]"

text \<open>
  The lines \<^verbatim>\<open>1. a\<close>, \<^verbatim>\<open>2. b\<close>, ... of a list of strings, counted from
  \<open>k\<close>: what the claims call numbered items.
\<close>

fun numbered_from :: "nat \<Rightarrow> pystr list \<Rightarrow> pystr list" where
  "numbered_from k [] = []"
| "numbered_from k (x # xs) = (str_nat k @ ascii ''. '' @ x) # numbered_from (Suc k) xs"

text \<open>
  The cached values for which the page can be built: a false one (the placeholder
  is shown), or a dictionary whose \<^verbatim>\<open>news\<close> is absent or can be enumerated.
\<close>

fun iterable :: "pyval \<Rightarrow> bool" where
  "iterable (PList xs) = True"
| "iterable (PStr s) = True"
| "iterable (PDict kvs) = True"
| "iterable v = False"

definition page_renders :: "pyval \<Rightarrow> bool" where
  "page_renders d =
    (if truthy d then
       (case d of
          PDict kvs \<Rightarrow>
            (case map_of kvs (ascii ''news'') of None \<Rightarrow> True | Some v \<Rightarrow> iterable v)
        | _ \<Rightarrow> False)
     else True)"

text \<open>
  What a fetch that did not fail caches, \<^verbatim>\<open>data.get("data", {})\<close> of the decoded
  body, and the cached values on which \<^verbatim>\<open>__send_notify\<close> raises while it
  assembles its message.
\<close>

definition fetched :: "http_result \<Rightarrow> pyval" where
  "fetched res =
    (case res of
       Response r \<Rightarrow>
         (case json r of
            Inr body \<Rightarrow>
              (case py_get body (ascii ''data'') (PDict []) of Inr d \<Rightarrow> d | Inl e \<Rightarrow> PNone)
          | Inl e \<Rightarrow> PNone)
     | _ \<Rightarrow> PNone)"

definition notify_raises :: "host \<Rightarrow> pyval \<Rightarrow> bool" where
  "notify_raises h d =
    (truthy d \<and> (case notify_message h d of Inl e \<Rightarrow> True | Inr m \<Rightarrow> False))"

section \<open>Concrete inputs\<close>

text \<open>
  A host whose crontab parser accepts the default expression only, and the Digest
  and responses the specification uses as test data.
\<close>

definition example_host :: host where
  "example_host =
     \<lparr>py_str = (\<lambda>v. ascii ''?''),
      crontab_error = (\<lambda>c. if c = default_cron then None
                            else Some (Raised (ascii ''Wrong number of fields''))),
      slices_hashable = True\<rparr>"

definition example_digest :: digest where
  "example_digest =
     \<lparr>digest_date = ascii ''D'', digest_tip = ascii ''T'', digest_cover = ascii ''C'',
      digest_news = [ascii ''a'', ascii ''b'', ascii ''c'', ascii ''d'', ascii ''e'', ascii ''f''],
      digest_link = ascii ''L''\<rparr>"

definition ok_response :: "pyval \<Rightarrow> response" where
  "ok_response body = \<lparr>status_code = 200, json = Inr body, res_text = []\<rparr>"

definition site_message :: "pystr \<Rightarrow> notification" where
  "site_message m = \<lparr>mtype = SiteMessage, title = plugin_title, message = m\<rparr>"

text \<open>
  A configuration whose cron expression the parser rejects, and the event of the
  plugin's command.
\<close>

definition bad_cron_config :: pyval where
  "bad_cron_config = PDict [(ascii ''enabled'', PBool True), (ascii ''cron'', lit ''every day'')]"

definition action_event :: event where
  "action_event = Event (PDict [(ascii ''action'', lit ''sixty_seconds'')])"

text \<open>The message of the data model's Digest, line by line.\<close>

definition digest_message :: "digest \<Rightarrow> pystr" where
  "digest_message g =
     title_open @ plugin_title @ middle_dot @ digest_date g @ title_close @ [10]
     @ digest_tip g @ [10, 10]
     @ concat (map (\<lambda>l. l @ [10]) (numbered_from 1 (take 5 (digest_news g))))
     @ details_prefix @ digest_link g"

section \<open>Basic facts\<close>

lemma ascii_eq_iff [simp]: "ascii a = ascii b \<longleftrightarrow> a = b"
  unfolding ascii_def by (simp add: inj_map_eq_map inj_on_def)

lemma lit_eq_iff [simp]: "lit a = lit b \<longleftrightarrow> a = b"
  by (simp add: lit_def)

lemma bind_exn_Inl [simp]: "bind_exn (Inl e) f = Inl e"
  by (simp add: bind_exn_def)

lemma bind_exn_Inr [simp]: "bind_exn (Inr x) f = f x"
  by (simp add: bind_exn_def)

lemma py_get_digest [simp]:
  "py_get (digest_val g) (ascii ''date'') x = Inr (PStr (digest_date g))"
  "py_get (digest_val g) (ascii ''tip'') x = Inr (PStr (digest_tip g))"
  "py_get (digest_val g) (ascii ''cover'') x = Inr (PStr (digest_cover g))"
  "py_get (digest_val g) (ascii ''news'') x = Inr (PList (map PStr (digest_news g)))"
  "py_get (digest_val g) (ascii ''link'') x = Inr (PStr (digest_link g))"
  by (simp_all add: digest_val_def)

lemma truthy_digest [simp]: "truthy (digest_val g)"
  by (simp add: digest_val_def)

text \<open>The loop over the enumeration of a list of strings numbers its lines from one.\<close>

lemma foldl_numbered:
  "foldl (\<lambda>m p. m @ numbered h (fst p) (snd p) @ [10]) acc (List.enumerate k (map PStr xs))
     = acc @ concat (map (\<lambda>l. l @ [10]) (numbered_from (Suc k) xs))"
  by (induction xs arbitrary: k acc) (simp_all add: numbered_def)

lemma notify_message_digest:
  "notify_message h (digest_val g) = Inr (digest_message g)"
  by (simp add: notify_message_def digest_message_def heading_def foldl_numbered take_map)

lemma send_notify_digest:
  "data s = digest_val g \<Longrightarrow>
     send_notify h s = (Inr (), s\<lparr>posted := posted s @ [site_message (digest_message g)]\<rparr>)"
  by (simp add: send_notify_def notify_message_digest site_message_def)

lemma send_notify_empty: "\<not> truthy (data s) \<Longrightarrow> send_notify h s = (Inr (), s)"
  by (simp add: send_notify_def)


section \<open>Fetch-and-cache\<close>

text \<open>Each kind of failure the specification lists is a failed fetch.\<close>

lemma fetch_failed_cases:
  "fetch_failed (Failed e)"
  "fetch_failed NoResponse"
  "status_code r \<noteq> 200 \<Longrightarrow> fetch_failed (Response r)"
  "json r = Inl e \<Longrightarrow> fetch_failed (Response r)"
  "json r = Inr (PDict kvs) \<Longrightarrow> map_of kvs (ascii ''code'') = None \<Longrightarrow> fetch_failed (Response r)"
  "json r = Inr (PDict kvs) \<Longrightarrow> map_of kvs (ascii ''code'') = Some c \<Longrightarrow> \<not> py_eq_int c 200
     \<Longrightarrow> fetch_failed (Response r)"
  by (simp_all add: fetch_failed_def)

text \<open>
  C1. For every cached Digest and update timestamp, and every failed fetch (an
  exception of the request, no response, a status other than 200, or an envelope
  whose code is not 200), \<^verbatim>\<open>__fetch_data\<close> returns \<^verbatim>\<open>False\<close> and leaves
  \<^verbatim>\<open>_data\<close> and \<^verbatim>\<open>_last_update\<close> as they were.
\<close>

theorem fetch_failure_keeps_cache:
  assumes "fetch_failed res"
  shows "fst (fetch_data h res now s) = Inr False
       \<and> data (snd (fetch_data h res now s)) = data s
       \<and> last_update (snd (fetch_data h res now s)) = last_update s"
  using assms
  by (auto simp: fetch_failed_def fetch_data_def fetch_try_def fetch_rejected_def put_log_def
        Let_def split: http_result.splits sum.splits if_splits)

theorem fetch_failure_keeps_cache_witness:
  "fetch_failed (Response \<lparr>status_code = 200,
       json = Inr (PDict [(ascii ''code'', PInt 500)]), res_text = ascii ''busy''\<rparr>)
   \<and> fst (fetch_data example_host
         (Response \<lparr>status_code = 200,
            json = Inr (PDict [(ascii ''code'', PInt 500)]), res_text = ascii ''busy''\<rparr>) 5
         (initial\<lparr>data := digest_val example_digest, last_update := Some 3\<rparr>)) = Inr False
   \<and> data (snd (fetch_data example_host
         (Response \<lparr>status_code = 200,
            json = Inr (PDict [(ascii ''code'', PInt 500)]), res_text = ascii ''busy''\<rparr>) 5
         (initial\<lparr>data := digest_val example_digest, last_update := Some 3\<rparr>)))
       = digest_val example_digest
   \<and> last_update (snd (fetch_data example_host
         (Response \<lparr>status_code = 200,
            json = Inr (PDict [(ascii ''code'', PInt 500)]), res_text = ascii ''busy''\<rparr>) 5
         (initial\<lparr>data := digest_val example_digest, last_update := Some 3\<rparr>))) = Some 3"
proof -
  have f: "fetch_failed (Response \<lparr>status_code = 200,
       json = Inr (PDict [(ascii ''code'', PInt 500)]), res_text = ascii ''busy''\<rparr>)"
    by (simp add: fetch_failed_def)
  show ?thesis
    using f fetch_failure_keeps_cache [OF f, of example_host 5
      "initial\<lparr>data := digest_val example_digest, last_update := Some 3\<rparr>"]
    by simp
qed

text \<open>
  C2. For every response with status 200 whose body is the envelope
  \<^verbatim>\<open>{code: 200, data: g}\<close> with \<open>g\<close> a Digest (date, tip, cover, news, link),
  \<^verbatim>\<open>__fetch_data\<close> returns \<^verbatim>\<open>True\<close>, the cached Digest is exactly \<open>g\<close> and the
  update timestamp is the time of the call.
\<close>

theorem fetch_success_replaces_cache:
  assumes "status_code r = 200" and "json r = Inr (envelope (digest_val g))"
  shows "fst (fetch_data h (Response r) now s) = Inr True
       \<and> data (snd (fetch_data h (Response r) now s)) = digest_val g
       \<and> last_update (snd (fetch_data h (Response r) now s)) = Some now"
  using assms
  by (simp add: fetch_data_def fetch_try_def put_log_def Let_def response_truthy_def
        envelope_def send_notify_digest)

theorem fetch_success_replaces_cache_witness:
  "status_code (ok_response (envelope (digest_val example_digest))) = 200
   \<and> json (ok_response (envelope (digest_val example_digest)))
       = Inr (envelope (digest_val example_digest))
   \<and> fst (fetch_data example_host (Response (ok_response (envelope (digest_val example_digest))))
         7 (initial\<lparr>notify := PBool True\<rparr>)) = Inr True
   \<and> data (snd (fetch_data example_host
         (Response (ok_response (envelope (digest_val example_digest))))
         7 (initial\<lparr>notify := PBool True\<rparr>))) = digest_val example_digest
   \<and> last_update (snd (fetch_data example_host
         (Response (ok_response (envelope (digest_val example_digest))))
         7 (initial\<lparr>notify := PBool True\<rparr>))) = Some 7"
  using fetch_success_replaces_cache [of "ok_response (envelope (digest_val example_digest))"
      example_digest example_host 7 "initial\<lparr>notify := PBool True\<rparr>"]
  by (simp add: ok_response_def)

text \<open>
  The result of \<^verbatim>\<open>__fetch_data\<close> as a function of its inputs: the only way for
  a fetch that did not fail to return \<^verbatim>\<open>False\<close> is an exception of
  \<^verbatim>\<open>__send_notify\<close>, which the same \<^verbatim>\<open>except\<close> catches.
\<close>

lemma fetch_data_result:
  "fst (fetch_data h res now s)
     = Inr (\<not> fetch_failed res \<and> \<not> (truthy (notify s) \<and> notify_raises h (fetched res)))"
proof (cases res)
  case (Response r)
  show ?thesis
  proof (cases "json r")
    case (Inl e)
    then show ?thesis
      by (simp add: Response fetch_failed_def fetch_data_def fetch_try_def fetch_rejected_def
            put_log_def Let_def)
  next
    case (Inr body)
    then show ?thesis
      by (cases body)
        (auto simp: Response fetch_failed_def fetch_data_def fetch_try_def fetch_rejected_def
          put_log_def Let_def fetched_def send_notify_def notify_raises_def response_truthy_def
          split: sum.splits option.splits)
  qed
qed (simp_all add: fetch_failed_def fetch_data_def fetch_try_def fetch_rejected_def put_log_def)



lemma notify_raises_digest [simp]: "\<not> notify_raises h (digest_val g)"
  by (simp add: notify_raises_def notify_message_digest)

lemma notify_raises_empty [simp]: "\<not> truthy d \<Longrightarrow> \<not> notify_raises h d"
  by (simp add: notify_raises_def)

text \<open>Two readings of success: notification off, or a Digest in the envelope.\<close>

lemma fetch_true_without_notify:
  "\<not> fetch_failed res \<Longrightarrow> \<not> truthy (notify s) \<Longrightarrow> fst (fetch_data h res now s) = Inr True"
  by (simp add: fetch_data_result)

lemma fetch_true_on_digest:
  "\<not> fetch_failed res \<Longrightarrow> fetched res = digest_val g \<Longrightarrow>
     fst (fetch_data h res now s) = Inr True"
  by (simp add: fetch_data_result)



text \<open>
  C9. For every response with status 200 whose envelope has code 200 and no
  \<^verbatim>\<open>data\<close> field, \<^verbatim>\<open>__fetch_data\<close> returns \<^verbatim>\<open>True\<close>, records the time of the
  call and replaces the cached Digest with the empty dictionary, whatever was
  cached before: the cache is back in the no-data state, and nothing is posted.
\<close>

theorem fetch_without_data_field:
  assumes "status_code r = 200" and "json r = Inr (PDict kvs)"
    and "map_of kvs (ascii ''code'') = Some c" and "py_eq_int c 200"
    and "map_of kvs (ascii ''data'') = None"
  shows "fst (fetch_data h (Response r) now s) = Inr True
       \<and> data (snd (fetch_data h (Response r) now s)) = PDict []
       \<and> \<not> truthy (data (snd (fetch_data h (Response r) now s)))
       \<and> last_update (snd (fetch_data h (Response r) now s)) = Some now
       \<and> posted (snd (fetch_data h (Response r) now s)) = posted s"
  using assms
  by (simp add: fetch_data_def fetch_try_def put_log_def Let_def response_truthy_def
        send_notify_def)

theorem fetch_without_data_field_witness:
  "truthy (data (initial\<lparr>data := digest_val example_digest, notify := PBool True\<rparr>))
   \<and> fst (fetch_data example_host (Response (ok_response (PDict [(ascii ''code'', PInt 200)])))
         9 (initial\<lparr>data := digest_val example_digest, notify := PBool True\<rparr>)) = Inr True
   \<and> data (snd (fetch_data example_host
         (Response (ok_response (PDict [(ascii ''code'', PInt 200)])))
         9 (initial\<lparr>data := digest_val example_digest, notify := PBool True\<rparr>))) = PDict []
   \<and> last_update (snd (fetch_data example_host
         (Response (ok_response (PDict [(ascii ''code'', PInt 200)])))
         9 (initial\<lparr>data := digest_val example_digest, notify := PBool True\<rparr>))) = Some 9"
  using fetch_without_data_field [of "ok_response (PDict [(ascii ''code'', PInt 200)])"
      "[(ascii ''code'', PInt 200)]" "PInt 200" example_host 9
      "initial\<lparr>data := digest_val example_digest, notify := PBool True\<rparr>"]
  by (simp add: ok_response_def)

section \<open>Render\<close>

lemma length_numbered_from [simp]: "length (numbered_from k xs) = length xs"
  by (induction xs arbitrary: k) simp_all

lemma str_nat_digit: "n < 10 \<Longrightarrow> str_nat n = [48 + n]"
  by (simp add: str_nat.simps)

lemma page_item_texts:
  "map (get_at [Key (ascii ''text'')]) (map (page_news_item h) (List.enumerate k (map PStr xs)))
     = map (\<lambda>l. Some (PStr l)) (numbered_from (Suc k) xs)"
  by (induction xs arbitrary: k) (simp_all add: page_news_item_def numbered_def)

text \<open>The page numbers every news item of a Digest.\<close>

lemma page_news_texts:
  assumes "data s = digest_val g"
  shows "\<exists>page. get_page h s = Inr page
     \<and> map_option child_texts (get_at page_news_pos page)
         = Some (map (\<lambda>l. Some (PStr l)) (numbered_from 1 (digest_news g)))"
  using assms
  by (simp add: get_page_def page_news_pos_def child_texts_def page_item_texts
           del: map_map)

lemma numbered_six:
  "numbered_from 1 [a, b, c, d, e, f]
     = [ascii ''1. '' @ a, ascii ''2. '' @ b, ascii ''3. '' @ c, ascii ''4. '' @ d,
        ascii ''5. '' @ e, ascii ''6. '' @ f]"
  by (simp add: str_nat_digit ascii_def)

text \<open>
  C3, the full page. For every cached Digest whose news list has the six items
  \<open>a\<close>, ..., \<open>f\<close>, \<^verbatim>\<open>get_page\<close> returns and its news container holds six
  children with the texts \<^verbatim>\<open>1. a\<close> to \<^verbatim>\<open>6. f\<close> in list order. The dashboard
  half of the claim has no counterpart here: \<^verbatim>\<open>get_dashboard\<close> as given is not
  well-formed, its \<^verbatim>\<open>enumerate(\<close> around the slice \<^verbatim>\<open>[:3]\<close> is never closed.
\<close>

theorem page_news_items:
  assumes "data s = digest_val g" and "digest_news g = [a, b, c, d, e, f]"
  shows "\<exists>page.
       get_page h s = Inr page
     \<and> map_option child_texts (get_at page_news_pos page)
         = Some [Some (PStr (ascii ''1. '' @ a)), Some (PStr (ascii ''2. '' @ b)),
                 Some (PStr (ascii ''3. '' @ c)), Some (PStr (ascii ''4. '' @ d)),
                 Some (PStr (ascii ''5. '' @ e)), Some (PStr (ascii ''6. '' @ f))]"
proof -
  obtain page where p: "get_page h s = Inr page"
    "map_option child_texts (get_at page_news_pos page)
       = Some (map (\<lambda>l. Some (PStr l)) (numbered_from 1 (digest_news g)))"
    using page_news_texts [OF assms(1)] by blast
  have six: "numbered_from 1 (digest_news g)
     = [ascii ''1. '' @ a, ascii ''2. '' @ b, ascii ''3. '' @ c, ascii ''4. '' @ d,
        ascii ''5. '' @ e, ascii ''6. '' @ f]"
    by (simp only: assms(2) numbered_six)
  show ?thesis
    using p(1) p(2) [unfolded six] by simp
qed

theorem page_news_items_witness:
  "data (initial\<lparr>data := digest_val example_digest\<rparr>) = digest_val example_digest
   \<and> digest_news example_digest
       = [ascii ''a'', ascii ''b'', ascii ''c'', ascii ''d'', ascii ''e'', ascii ''f'']
   \<and> (\<exists>page.
       get_page example_host (initial\<lparr>data := digest_val example_digest\<rparr>) = Inr page
     \<and> map_option child_texts (get_at page_news_pos page)
         = Some [Some (lit ''1. a''), Some (lit ''2. b''), Some (lit ''3. c''),
                 Some (lit ''4. d''), Some (lit ''5. e''), Some (lit ''6. f'')])"
proof -
  have n: "digest_news example_digest
       = [ascii ''a'', ascii ''b'', ascii ''c'', ascii ''d'', ascii ''e'', ascii ''f'']"
    by (simp add: example_digest_def)
  have d: "data (initial\<lparr>data := digest_val example_digest\<rparr>) = digest_val example_digest"
    by simp
  show ?thesis
    using n page_news_items [OF d n, of example_host]
    by (simp add: lit_def ascii_def)
qed

subsection \<open>When the page can be built\<close>

lemma page_renders_cases:
  "\<not> truthy d \<Longrightarrow> page_renders d"
  "kvs \<noteq> [] \<Longrightarrow> map_of kvs (ascii ''news'') = None \<Longrightarrow> page_renders (PDict kvs)"
  "map_of kvs (ascii ''news'') = Some (PList xs) \<Longrightarrow> page_renders (PDict kvs)"
  "map_of kvs (ascii ''news'') = Some (PStr x) \<Longrightarrow> page_renders (PDict kvs)"
  "map_of kvs (ascii ''news'') = Some (PDict ys) \<Longrightarrow> page_renders (PDict kvs)"
  "page_renders (digest_val g)"
  by (auto simp: page_renders_def digest_val_def)

lemma page_renders_not:
  "map_of kvs (ascii ''news'') = Some PNone \<Longrightarrow> \<not> page_renders (PDict kvs)"
  "map_of kvs (ascii ''news'') = Some (PBool b) \<Longrightarrow> \<not> page_renders (PDict kvs)"
  "map_of kvs (ascii ''news'') = Some (PInt i) \<Longrightarrow> \<not> page_renders (PDict kvs)"
  "map_of kvs (ascii ''news'') = Some (PFloat r) \<Longrightarrow> \<not> page_renders (PDict kvs)"
  "xs \<noteq> [] \<Longrightarrow> \<not> page_renders (PList xs)"
  "x \<noteq> [] \<Longrightarrow> \<not> page_renders (PStr x)"
  by (auto simp: page_renders_def)

lemma get_page_returns: "(\<exists>v. get_page h s = Inr v) = page_renders (data s)"
proof (cases "data s")
  case (PDict kvs)
  show ?thesis
  proof (cases "map_of kvs (ascii ''news'')")
    case None
    then show ?thesis by (simp add: get_page_def page_renders_def PDict)
  next
    case (Some v)
    then show ?thesis
      by (cases v) (simp_all add: get_page_def page_renders_def PDict)
  qed
qed (simp_all add: get_page_def page_renders_def)

text \<open>
  C5, as the code has it, for the full page. With nothing cached (an empty or
  otherwise false value) \<^verbatim>\<open>get_page\<close> returns the single placeholder element.
  It returns without an exception exactly for the cached values that are false or
  are a dictionary whose \<^verbatim>\<open>news\<close> is absent, a list, a string or a dictionary;
  every Digest of the data model is among them.
\<close>

theorem page_render_without_exception:
  "(\<not> truthy (data s) \<longrightarrow> get_page h s = Inr (PList [page_placeholder]))
   \<and> (\<exists>v. get_page h s = Inr v) = page_renders (data s)
   \<and> page_renders (digest_val g)"
  by (simp add: get_page_returns page_renders_cases) (simp add: get_page_def)

theorem page_render_without_exception_witness:
  "\<not> truthy (data initial)
   \<and> get_page example_host initial = Inr (PList [page_placeholder])
   \<and> (\<exists>v. get_page example_host (initial\<lparr>data := digest_val example_digest\<rparr>) = Inr v)
   \<and> (\<exists>v. get_page example_host
          (initial\<lparr>data := PDict [(ascii ''news'', PList [lit ''only news''])]\<rparr>) = Inr v)"
proof -
  have e: "\<not> truthy (data initial)"
    by (simp add: initial_def)
  have d: "page_renders (data (initial\<lparr>data := digest_val example_digest\<rparr>))"
    by (simp add: page_renders_cases)
  have l: "page_renders
      (data (initial\<lparr>data := PDict [(ascii ''news'', PList [lit ''only news''])]\<rparr>))"
    by (simp add: page_renders_def)
  show ?thesis
    using e d l page_render_without_exception [of initial example_host example_digest]
      page_render_without_exception [of "initial\<lparr>data := digest_val example_digest\<rparr>"
        example_host example_digest]
      page_render_without_exception
        [of "initial\<lparr>data := PDict [(ascii ''news'', PList [lit ''only news''])]\<rparr>"
        example_host example_digest]
    by simp
qed

text \<open>
  The envelope \<^verbatim>\<open>{code: 200, data: {news: null}}\<close> is fetched with success and
  cached as it is; \<^verbatim>\<open>enumerate(None)\<close> then raises in \<^verbatim>\<open>get_page\<close>.
\<close>

theorem page_raises_on_null_news:
  "fst (fetch_data example_host
      (Response (ok_response (envelope (PDict [(ascii ''news'', PNone)])))) 1 initial) = Inr True
   \<and> data (snd (fetch_data example_host
      (Response (ok_response (envelope (PDict [(ascii ''news'', PNone)])))) 1 initial))
      = PDict [(ascii ''news'', PNone)]
   \<and> get_page example_host (snd (fetch_data example_host
      (Response (ok_response (envelope (PDict [(ascii ''news'', PNone)])))) 1 initial))
      = Inl TypeError"
  by (simp add: fetch_data_def fetch_try_def put_log_def response_truthy_def ok_response_def
        envelope_def initial_def get_page_def)

subsection \<open>The cover flag\<close>

lemma page_cover_off_eq:
  "get_page h (s\<lparr>cover := PBool False\<rparr>)
     = map_sum id (set_at page_cover_pos PNone) (get_page h (s\<lparr>cover := PBool True\<rparr>))"
proof (cases "data s")
  case (PDict kvs)
  show ?thesis
  proof (cases "py_iter (case map_of kvs (ascii ''news'') of None \<Rightarrow> PList [] | Some v \<Rightarrow> v)")
    case (Inl e)
    then show ?thesis
      by (simp add: get_page_def PDict page_cover_pos_def page_placeholder_def)
  next
    case (Inr items)
    then show ?thesis
      by (simp add: get_page_def PDict page_cover_pos_def page_placeholder_def)
  qed
qed (simp_all add: get_page_def page_cover_pos_def page_placeholder_def)

lemma page_cover_on_image:
  assumes "data s = digest_val g"
  shows "map_sum id (get_at page_cover_pos) (get_page h (s\<lparr>cover := PBool True\<rparr>))
           = Inr (Some (page_img (PStr (digest_cover g))))"
  using assms
  by (simp add: get_page_def page_cover_pos_def)

text \<open>
  C6, as the code has it, for the full page. For every cached value, the page with
  the cover flag off is the page with the flag on in which the position of the
  cover image holds \<^verbatim>\<open>None\<close>; everything else is the same. For a Digest, what
  stands at that position with the flag on is the image element of the Digest's
  cover.
\<close>

theorem page_cover_off_leaves_none:
  "get_page h (s\<lparr>cover := PBool False\<rparr>)
     = map_sum id (set_at page_cover_pos PNone) (get_page h (s\<lparr>cover := PBool True\<rparr>))
   \<and> (data s = digest_val g \<longrightarrow>
        map_sum id (get_at page_cover_pos) (get_page h (s\<lparr>cover := PBool True\<rparr>))
          = Inr (Some (page_img (PStr (digest_cover g)))))"
  using page_cover_off_eq page_cover_on_image by blast

theorem page_cover_off_leaves_none_witness:
  "map_sum id (get_at page_cover_pos)
      (get_page example_host (initial\<lparr>data := digest_val example_digest, cover := PBool True\<rparr>))
     = Inr (Some (page_img (lit ''C'')))
   \<and> map_sum id (get_at page_cover_pos)
      (get_page example_host (initial\<lparr>data := digest_val example_digest, cover := PBool False\<rparr>))
     = Inr (Some PNone)"
proof -
  have d: "data (initial\<lparr>data := digest_val example_digest\<rparr>) = digest_val example_digest"
    by simp
  have c: "digest_cover example_digest = ascii ''C''"
    by (simp add: example_digest_def)
  have p: "map_sum id (get_at page_cover_pos)
      (get_page example_host (initial\<lparr>data := digest_val example_digest, cover := PBool False\<rparr>))
     = Inr (Some PNone)"
    by (simp add: get_page_def page_cover_pos_def)
  show ?thesis
    using d c p
      page_cover_off_leaves_none [of example_host
        "initial\<lparr>data := digest_val example_digest\<rparr>" example_digest]
    by (simp add: lit_def)
qed

text \<open>
  With the flag off the list that held the image still has an item at its place:
  the page is not the page with the image element removed.
\<close>

theorem page_cover_off_not_removed:
  "get_page example_host (initial\<lparr>data := digest_val example_digest, cover := PBool False\<rparr>)
     \<noteq> map_sum id (remove_at page_cover_pos)
         (get_page example_host
            (initial\<lparr>data := digest_val example_digest, cover := PBool True\<rparr>))"
  by (simp add: get_page_def page_cover_pos_def)

section \<open>Notify\<close>

text \<open>
  C4. With nothing cached \<^verbatim>\<open>__send_notify\<close> changes nothing. With a Digest
  cached it posts one message of type \<^verbatim>\<open>SiteMessage\<close> under the plugin's title:
  the title line with the date, the tip line, an empty line, the first
  \<open>min 5 (length news)\<close> news items numbered from 1 in list order, one per line, and
  after an empty line the line with the link.
\<close>

theorem notify_message_format:
  "(\<not> truthy (data s) \<longrightarrow> send_notify h s = (Inr (), s))
   \<and> (data s = digest_val g \<longrightarrow>
        send_notify h s =
          (Inr (), s\<lparr>posted := posted s @
             [\<lparr>mtype = SiteMessage, title = plugin_title,
               message =
                 title_open @ plugin_title @ middle_dot @ digest_date g @ title_close @ [10]
                 @ digest_tip g @ [10, 10]
                 @ concat (map (\<lambda>l. l @ [10]) (numbered_from 1 (take 5 (digest_news g))))
                 @ details_prefix @ digest_link g\<rparr>]\<rparr>)
        \<and> length (numbered_from 1 (take 5 (digest_news g))) = min 5 (length (digest_news g)))"
  by (simp add: send_notify_empty send_notify_digest site_message_def digest_message_def
        min.commute)

theorem notify_message_format_witness:
  "send_notify example_host initial = (Inr (), initial)
   \<and> posted (snd (send_notify example_host (initial\<lparr>data := digest_val example_digest\<rparr>)))
     = [\<lparr>mtype = SiteMessage, title = plugin_title,
         message =
           title_open @ plugin_title @ middle_dot @ ascii ''D'' @ title_close @ [10]
           @ ascii ''T'' @ [10, 10]
           @ ascii ''1. a'' @ [10] @ ascii ''2. b'' @ [10] @ ascii ''3. c'' @ [10]
           @ ascii ''4. d'' @ [10] @ ascii ''5. e'' @ [10]
           @ details_prefix @ ascii ''L''\<rparr>]"
proof -
  have e: "\<not> truthy (data initial)"
    by (simp add: initial_def)
  have d: "data (initial\<lparr>data := digest_val example_digest\<rparr>) = digest_val example_digest"
    by simp
  have p: "posted initial = []"
    by (simp add: initial_def)
  show ?thesis
    using e d p notify_message_format [of initial example_host example_digest]
      notify_message_format [of "initial\<lparr>data := digest_val example_digest\<rparr>"
        example_host example_digest]
    by (simp add: example_digest_def str_nat_digit ascii_def)
qed

section \<open>Scheduling with an invalid cron expression\<close>

lemma start_scheduler_invalid_cron:
  "truthy (enabled s) \<Longrightarrow> crontab_error h (cron s) = Some e \<Longrightarrow>
     scheduler (start_scheduler h s) = Some \<lparr>jobs = [], running = False\<rparr>
     \<and> enabled (start_scheduler h s) = enabled s"
  by (simp add: start_scheduler_def put_log_def Let_def)

lemma get_service_invalid_cron:
  "truthy (enabled s) \<Longrightarrow> crontab_error h (cron s) = Some e \<Longrightarrow> get_service h s = Inl e"
  by (simp add: get_service_def)

text \<open>
  C7 at the configuration \<^verbatim>\<open>{enabled: True, cron: "every day"}\<close>, which the
  crontab parser rejects. \<^verbatim>\<open>init_plugin\<close> returns, its scheduler holds no job and
  is not started, and \<^verbatim>\<open>get_state\<close> is \<^verbatim>\<open>True\<close>; \<^verbatim>\<open>get_service\<close>, the other
  place that registers the scheduled fetch, lets the parser's exception out.
\<close>

theorem invalid_cron_get_service_raises:
  "fst (init_plugin example_host bad_cron_config NoResponse 0 initial) = Inr ()
   \<and> scheduler (snd (init_plugin example_host bad_cron_config NoResponse 0 initial))
       = Some \<lparr>jobs = [], running = False\<rparr>
   \<and> get_state (snd (init_plugin example_host bad_cron_config NoResponse 0 initial)) = PBool True
   \<and> get_service example_host (snd (init_plugin example_host bad_cron_config NoResponse 0 initial))
       = Inl (Raised (ascii ''Wrong number of fields''))"
  by (simp add: init_plugin_def stop_service_def load_config_def bad_cron_config_def
        run_once_def start_scheduler_def put_log_def Let_def initial_def example_host_def
        default_cron_def get_state_def get_service_def)

section \<open>The command and event handler\<close>

lemma fetch_data_posts:
  assumes "fetch_data h res now s = (Inr True, s')" and "truthy (notify s)"
    and "truthy (data s')"
  shows "\<exists>m. notify_message h (data s') = Inr m \<and> posted s' = posted s @ [site_message m]
     \<and> notify s' = notify s"
  using assms
  by (auto simp: fetch_data_def fetch_try_def fetch_rejected_def put_log_def Let_def
        send_notify_def site_message_def
        split: http_result.splits sum.splits if_splits prod.splits)

text \<open>
  C10, as the code has it. For an event whose action is \<^verbatim>\<open>sixty_seconds\<close>, with
  the notify flag on, when the fetch the handler triggers returns \<^verbatim>\<open>True\<close> and
  leaves a non-empty Digest in the cache, the handler returns with the same message
  posted twice: once by the fetch and once more by the handler itself.
\<close>

theorem action_posts_twice:
  assumes "truthy (notify s)"
    and "py_get (event_data e) (ascii ''action'') PNone = Inr (lit ''sixty_seconds'')"
    and "fetch_data h res now (put_log (Info command_msg) s) = (Inr True, s')"
    and "truthy (data s')"
  shows "\<exists>m. notify_message h (data s') = Inr m
     \<and> fst (handle_action h (Some e) res now s) = Inr ()
     \<and> posted (snd (handle_action h (Some e) res now s))
         = posted s @ [site_message m, site_message m]"
proof -
  have n: "truthy (notify (put_log (Info command_msg) s))"
    using assms(1) by (simp add: put_log_def)
  obtain m where m: "notify_message h (data s') = Inr m"
    "posted s' = posted (put_log (Info command_msg) s) @ [site_message m]"
    "notify s' = notify (put_log (Info command_msg) s)"
    using fetch_data_posts [OF assms(3) n assms(4)] by blast
  have t: "truthy (event_data e)"
    using assms(2) by (cases "event_data e") (auto simp: lit_def split: option.splits)
  have "handle_action h (Some e) res now s = send_notify h s'"
    using assms t m(3) by (simp add: handle_action_def Let_def put_log_def)
  then show ?thesis
    using m assms(4) by (simp add: send_notify_def put_log_def site_message_def)
qed

theorem action_posts_twice_witness:
  "truthy (notify (initial\<lparr>notify := PBool True\<rparr>))
   \<and> py_get (event_data action_event) (ascii ''action'') PNone = Inr (lit ''sixty_seconds'')
   \<and> fst (fetch_data example_host (Response (ok_response (envelope (digest_val example_digest))))
        2 (put_log (Info command_msg) (initial\<lparr>notify := PBool True\<rparr>))) = Inr True
   \<and> fst (handle_action example_host (Some action_event)
        (Response (ok_response (envelope (digest_val example_digest)))) 2
        (initial\<lparr>notify := PBool True\<rparr>)) = Inr ()
   \<and> posted (snd (handle_action example_host (Some action_event)
        (Response (ok_response (envelope (digest_val example_digest)))) 2
        (initial\<lparr>notify := PBool True\<rparr>)))
      = [site_message (digest_message example_digest),
         site_message (digest_message example_digest)]"
proof -
  let ?s = "initial\<lparr>notify := PBool True\<rparr>"
  let ?res = "Response (ok_response (envelope (digest_val example_digest)))"
  let ?s' = "snd (fetch_data example_host ?res 2 (put_log (Info command_msg) ?s))"
  have n: "truthy (notify ?s)"
    by simp
  have a: "py_get (event_data action_event) (ascii ''action'') PNone = Inr (lit ''sixty_seconds'')"
    by (simp add: action_event_def)
  have f: "fst (fetch_data example_host ?res 2 (put_log (Info command_msg) ?s)) = Inr True"
    by (simp add: fetch_data_def fetch_try_def put_log_def Let_def response_truthy_def
          ok_response_def envelope_def send_notify_digest)
  then have f': "fetch_data example_host ?res 2 (put_log (Info command_msg) ?s) = (Inr True, ?s')"
    by (metis prod.collapse)
  have d: "data ?s' = digest_val example_digest"
    by (simp add: fetch_data_def fetch_try_def put_log_def Let_def response_truthy_def
          ok_response_def envelope_def send_notify_digest)
  then have t: "truthy (data ?s')"
    by simp
  have p: "posted ?s = []"
    by (simp add: initial_def)
  show ?thesis
    using n a f p d action_posts_twice [OF n a f' t]
    by (simp add: notify_message_digest)
qed

text \<open>
  The envelope \<^verbatim>\<open>{code: 200}\<close> makes the triggered fetch succeed with an empty
  cache: with the notify flag on, nothing is posted at all.
\<close>

theorem action_posts_nothing_without_data:
  "truthy (notify (initial\<lparr>notify := PBool True\<rparr>))
   \<and> fst (fetch_data example_host (Response (ok_response (PDict [(ascii ''code'', PInt 200)]))) 1
        (put_log (Info command_msg) (initial\<lparr>notify := PBool True\<rparr>))) = Inr True
   \<and> fst (handle_action example_host (Some action_event)
        (Response (ok_response (PDict [(ascii ''code'', PInt 200)]))) 1
        (initial\<lparr>notify := PBool True\<rparr>)) = Inr ()
   \<and> posted (snd (handle_action example_host (Some action_event)
        (Response (ok_response (PDict [(ascii ''code'', PInt 200)]))) 1
        (initial\<lparr>notify := PBool True\<rparr>))) = []"
  by (simp add: handle_action_def action_event_def fetch_data_def fetch_try_def put_log_def
        Let_def response_truthy_def ok_response_def send_notify_def initial_def)

end
